theory Spec2Isabelle
  imports Main "HOL-Library.AList"
begin

section \<open>Python values and dictionaries\<close>

text \<open>
  The handlers of \<^verbatim>\<open>src/backend/routers/announcements.py\<close> work on Python dictionaries
  whose values are strings, datetimes, \<^verbatim>\<open>None\<close>, booleans and the store's ObjectIds.
  A dictionary is an association list in insertion order. A datetime is an instant at
  the resolution of the store (a BSON date: milliseconds since the epoch, UTC), an
  ObjectId is given by the 24 hexadecimal digits that \<^verbatim>\<open>str\<close> returns for it.
\<close>

datatype object_id = ObjectId (oid_hex: string)

datatype py_value =
    PyNone
  | PyBool bool
  | PyStr string
  | PyDatetime int
  | PyObjectId object_id

type_synonym py_dict = "(string \<times> py_value) list"

datatype error =
    HTTPException nat string
  | KeyError string
  | AttributeError
  | DuplicateKeyError

text \<open>The four failures the handlers raise themselves, under the names of the specification.\<close>

abbreviation Unauthenticated :: error where
  "Unauthenticated \<equiv> HTTPException 401 ''Authentication required.''"

abbreviation InvalidCaller :: error where
  "InvalidCaller \<equiv> HTTPException 401 ''Invalid user.''"

abbreviation NoFieldsToUpdate :: error where
  "NoFieldsToUpdate \<equiv> HTTPException 400 ''No fields to update.''"

abbreviation NotFound :: error where
  "NotFound \<equiv> HTTPException 404 ''Announcement not found.''"

text \<open>\<^verbatim>\<open>d[k] = v\<close>: an existing key keeps its place, a new key goes last.\<close>

definition setitem :: "py_dict \<Rightarrow> string \<Rightarrow> py_value \<Rightarrow> py_dict" where
  "setitem d k v = AList.update k v d"

text \<open>\<^verbatim>\<open>d.pop(k)\<close>: the value and the dictionary without the key; KeyError when absent.\<close>

definition pop :: "py_dict \<Rightarrow> string \<Rightarrow> error + (py_value \<times> py_dict)" where
  "pop d k = (case map_of d k of
                None \<Rightarrow> Inl (KeyError k)
              | Some v \<Rightarrow> Inr (v, AList.delete k d))"

subsection \<open>\<^verbatim>\<open>str\<close> of a value\<close>

fun digits :: "nat \<Rightarrow> nat \<Rightarrow> string" where
  "digits 0 n = []"
| "digits (Suc w) n = digits w (n div 10) @ [char_of (48 + n mod 10)]"

definition civil_from_days :: "int \<Rightarrow> int \<times> int \<times> int" where
  "civil_from_days days =
    (let z = days + 719468;
         era = z div 146097;
         doe = z - era * 146097;
         yoe = (doe - doe div 1460 + doe div 36524 - doe div 146096) div 365;
         doy = doe - (365 * yoe + yoe div 4 - yoe div 100);
         mp = (5 * doy + 2) div 153;
         d = doy - (153 * mp + 2) div 5 + 1;
         m = (if mp < 10 then mp + 3 else mp - 9);
         y = yoe + era * 400 + (if m \<le> 2 then 1 else 0)
     in (y, m, d))"

text \<open>
  \<^verbatim>\<open>str\<close> of a datetime read back from the store:
  \<^verbatim>\<open>YYYY-MM-DD HH:MM:SS\<close>, followed by \<^verbatim>\<open>.ffffff\<close> when the fraction is not zero.
\<close>

definition isoformat :: "int \<Rightarrow> string" where
  "isoformat t =
    (let (y, m, d) = civil_from_days (t div 86400000);
         ms = nat (t mod 86400000);
         hms = ms div 1000;
         frac = ms mod 1000
     in digits 4 (nat y) @ ''-'' @ digits 2 (nat m) @ ''-'' @ digits 2 (nat d) @ '' '' @
        digits 2 (hms div 3600) @ '':'' @ digits 2 (hms div 60 mod 60) @ '':'' @
        digits 2 (hms mod 60) @
        (if frac = 0 then [] else ''.'' @ digits 6 (frac * 1000)))"

fun py_str :: "py_value \<Rightarrow> string" where
  "py_str PyNone = ''None''"
| "py_str (PyBool b) = (if b then ''True'' else ''False'')"
| "py_str (PyStr s) = s"
| "py_str (PyDatetime t) = isoformat t"
| "py_str (PyObjectId oid) = oid_hex oid"

section \<open>The document store\<close>

text \<open>
  \<^verbatim>\<open>announcements_collection\<close> and \<^verbatim>\<open>teachers_collection\<close> are collections of
  the document store: lists of documents in the store's natural order, every document a
  dictionary with its key under \<^verbatim>\<open>_id\<close>. The handlers build two shapes of filter:
  \<^verbatim>\<open>{field: s}\<close> for a string \<open>s\<close>, and \<^verbatim>\<open>{field: {"$gte": t}}\<close> for a datetime
  \<open>t\<close>. The store compares values of one type only: a string filter never matches an
  ObjectId, whatever its digits, a date filter never matches a value that is not a
  date, and neither matches a document without the field.
\<close>

type_synonym collection = "py_dict list"

datatype condition = EqStr string | GteDate int

type_synonym query = "string \<times> condition"

fun matches_cond :: "py_value option \<Rightarrow> condition \<Rightarrow> bool" where
  "matches_cond (Some (PyStr s)) (EqStr s') = (s = s')"
| "matches_cond (Some (PyDatetime t)) (GteDate u) = (u \<le> t)"
| "matches_cond _ _ = False"

fun matches :: "py_dict \<Rightarrow> query \<Rightarrow> bool" where
  "matches d (field, c) = matches_cond (map_of d field) c"

definition find_docs :: "collection \<Rightarrow> query \<Rightarrow> py_dict list" where
  "find_docs c q = filter (\<lambda>d. matches d q) c"

definition find_one :: "collection \<Rightarrow> query \<Rightarrow> py_dict option" where
  "find_one c q = List.find (\<lambda>d. matches d q) c"

text \<open>
  \<^verbatim>\<open>insert_one(document)\<close>: the driver's documentation says of the document "if
  the document does not have an \<^verbatim>\<open>_id\<close> field one will be added automatically": the
  driver generates an ObjectId, here the parameter \<open>new_oid\<close>, and puts it into the
  caller's dictionary before it sends the document. The store refuses a key that the
  collection already holds. The result is the collection, the caller's dictionary after
  the call, and \<^verbatim>\<open>inserted_id\<close>. The stored copy has \<^verbatim>\<open>_id\<close> first.
\<close>

definition key_in_use :: "collection \<Rightarrow> py_value \<Rightarrow> bool" where
  "key_in_use c key = list_ex (\<lambda>d. map_of d ''_id'' = Some key) c"

definition insert_one ::
  "object_id \<Rightarrow> collection \<Rightarrow> py_dict \<Rightarrow> error + (collection \<times> py_dict \<times> py_value)" where
  "insert_one new_oid c document =
    (let (key, document') =
           (case map_of document ''_id'' of
              None \<Rightarrow> (PyObjectId new_oid, setitem document ''_id'' (PyObjectId new_oid))
            | Some k \<Rightarrow> (k, document))
     in if key_in_use c key then Inl DuplicateKeyError
        else Inr (c @ [(''_id'', key) # AList.delete ''_id'' document'], document', key))"

text \<open>\<^verbatim>\<open>{"$set": fields}\<close> applied to one document, field by field.\<close>

fun apply_set :: "py_dict \<Rightarrow> py_dict \<Rightarrow> py_dict" where
  "apply_set d [] = d"
| "apply_set d ((k, v) # fields) = apply_set (setitem d k v) fields"

text \<open>
  \<^verbatim>\<open>update_one(filter, {"$set": fields})\<close> changes the first document that matches;
  the second component is \<^verbatim>\<open>matched_count\<close>.
\<close>

fun update_one :: "collection \<Rightarrow> query \<Rightarrow> py_dict \<Rightarrow> collection \<times> nat" where
  "update_one [] q fields = ([], 0)"
| "update_one (d # ds) q fields =
     (if matches d q then (apply_set d fields # ds, 1)
      else (let (ds', n) = update_one ds q fields in (d # ds', n)))"

text \<open>
  \<^verbatim>\<open>delete_one(filter)\<close> removes the first document that matches; the second
  component is \<^verbatim>\<open>deleted_count\<close>.
\<close>

fun delete_one :: "collection \<Rightarrow> query \<Rightarrow> collection \<times> nat" where
  "delete_one [] q = ([], 0)"
| "delete_one (d # ds) q =
     (if matches d q then (ds, 1)
      else (let (ds', n) = delete_one ds q in (d # ds', n)))"

record database =
  announcements_collection :: collection
  teachers_collection :: collection

section \<open>The handlers\<close>

text \<open>
  \<^verbatim>\<open>require_auth\<close>: \<^verbatim>\<open>not username\<close> holds for \<^verbatim>\<open>None\<close> and for the empty string,
  \<^verbatim>\<open>not teacher\<close> for \<^verbatim>\<open>None\<close> and for an empty dictionary.
\<close>

definition require_auth :: "database \<Rightarrow> string option \<Rightarrow> error + py_dict" where
  "require_auth db username =
    (case username of
       None \<Rightarrow> Inl (HTTPException 401 ''Authentication required.'')
     | Some u \<Rightarrow>
         if u = [] then Inl (HTTPException 401 ''Authentication required.'')
         else (case find_one (teachers_collection db) (''_id'', EqStr u) of
                 None \<Rightarrow> Inl (HTTPException 401 ''Invalid user.'')
               | Some teacher \<Rightarrow>
                   if teacher = [] then Inl (HTTPException 401 ''Invalid user.'')
                   else Inr teacher))"

text \<open>\<^verbatim>\<open>ann["id"] = str(ann.pop("_id"))\<close>, the statement of lines 33 and 77.\<close>

definition id_from_key :: "py_dict \<Rightarrow> error + py_dict" where
  "id_from_key ann =
    (case pop ann ''_id'' of
       Inl e \<Rightarrow> Inl e
     | Inr (k, ann') \<Rightarrow> Inr (setitem ann' ''id'' (PyStr (py_str k))))"

text \<open>The loop of \<^verbatim>\<open>get_announcements\<close> over the documents found.\<close>

fun for_each_ann :: "py_dict list \<Rightarrow> error + py_dict list" where
  "for_each_ann [] = Inr []"
| "for_each_ann (ann # anns) =
     (case id_from_key ann of
        Inl e \<Rightarrow> Inl e
      | Inr a \<Rightarrow> (case for_each_ann anns of
                    Inl e \<Rightarrow> Inl e
                  | Inr rest \<Rightarrow> Inr (a # rest)))"

text \<open>\<open>now\<close> is the value of \<^verbatim>\<open>datetime.now()\<close>, read once.\<close>

definition get_announcements :: "database \<Rightarrow> int \<Rightarrow> error + py_dict list" where
  "get_announcements db now =
     for_each_ann (find_docs (announcements_collection db) (''expiration'', GteDate now))"

text \<open>
  The three handlers that write take \<^verbatim>\<open>Depends(require_auth)\<close>: the framework calls
  \<^verbatim>\<open>require_auth\<close> on the request's \<^verbatim>\<open>username\<close> first, and runs the body only when
  it returns. Each handler returns its result and the database after the call.
\<close>

definition create_announcement ::
  "database \<Rightarrow> object_id \<Rightarrow> string \<Rightarrow> int \<Rightarrow> int option \<Rightarrow> string option
     \<Rightarrow> (error + py_dict) \<times> database" where
  "create_announcement db new_oid message expiration start_date username =
    (case require_auth db username of
       Inl e \<Rightarrow> (Inl e, db)
     | Inr teacher \<Rightarrow>
         (let ann = [(''message'', PyStr message),
                     (''expiration'', PyDatetime expiration),
                     (''start_date'', case start_date of None \<Rightarrow> PyNone | Some s \<Rightarrow> PyDatetime s)]
          in case insert_one new_oid (announcements_collection db) ann of
               Inl e \<Rightarrow> (Inl e, db)
             | Inr (c', ann', inserted_id) \<Rightarrow>
                 (Inr (setitem ann' ''id'' (PyStr (py_str inserted_id))),
                  db\<lparr>announcements_collection := c'\<rparr>)))"

definition update_announcement ::
  "database \<Rightarrow> string \<Rightarrow> string option \<Rightarrow> int option \<Rightarrow> int option \<Rightarrow> string option
     \<Rightarrow> (error + py_dict) \<times> database" where
  "update_announcement db announcement_id message expiration start_date username =
    (case require_auth db username of
       Inl e \<Rightarrow> (Inl e, db)
     | Inr teacher \<Rightarrow>
         (let update_fields = [];
              update_fields = (case message of
                                 None \<Rightarrow> update_fields
                               | Some m \<Rightarrow> setitem update_fields ''message'' (PyStr m));
              update_fields = (case expiration of
                                 None \<Rightarrow> update_fields
                               | Some e \<Rightarrow> setitem update_fields ''expiration'' (PyDatetime e));
              update_fields = (case start_date of
                                 None \<Rightarrow> update_fields
                               | Some s \<Rightarrow> setitem update_fields ''start_date'' (PyDatetime s))
          in if update_fields = [] then (Inl (HTTPException 400 ''No fields to update.''), db)
             else (let (c', matched_count) =
                         update_one (announcements_collection db)
                           (''_id'', EqStr announcement_id) update_fields;
                       db' = db\<lparr>announcements_collection := c'\<rparr>
                   in if matched_count = 0
                      then (Inl (HTTPException 404 ''Announcement not found.''), db')
                      else (case find_one c' (''_id'', EqStr announcement_id) of
                              None \<Rightarrow> (Inl AttributeError, db')
                            | Some ann \<Rightarrow>
                                (case id_from_key ann of
                                   Inl e \<Rightarrow> (Inl e, db')
                                 | Inr a \<Rightarrow> (Inr a, db'))))))"

definition delete_announcement ::
  "database \<Rightarrow> string \<Rightarrow> string option \<Rightarrow> (error + py_dict) \<times> database" where
  "delete_announcement db announcement_id username =
    (case require_auth db username of
       Inl e \<Rightarrow> (Inl e, db)
     | Inr teacher \<Rightarrow>
         (let (c', deleted_count) =
                delete_one (announcements_collection db) (''_id'', EqStr announcement_id);
              db' = db\<lparr>announcements_collection := c'\<rparr>
          in if deleted_count = 0
             then (Inl (HTTPException 404 ''Announcement not found.''), db')
             else (Inr [(''success'', PyBool True)], db')))"

section \<open>Notions of the specification\<close>

text \<open>
  Every document of a collection carries its key under \<^verbatim>\<open>_id\<close>, and no two documents
  of a collection have the same key: the store keeps both for every collection.
\<close>

definition has_key :: "py_dict \<Rightarrow> bool" where
  "has_key d = (map_of d ''_id'' \<noteq> None)"

definition wf_collection :: "collection \<Rightarrow> bool" where
  "wf_collection c = (list_all has_key c \<and> distinct (map (\<lambda>d. map_of d ''_id'') c))"

text \<open>
  An announcement is active at an instant when its \<^verbatim>\<open>expiration\<close> is a date at or
  after the instant.
\<close>

definition is_active :: "py_dict \<Rightarrow> int \<Rightarrow> bool" where
  "is_active d now =
     (case map_of d ''expiration'' of Some (PyDatetime t) \<Rightarrow> now \<le> t | _ \<Rightarrow> False)"

text \<open>
  The identifier under which callers know a stored announcement: the string that List
  Active and Create return for it, \<^verbatim>\<open>str\<close> of its key.
\<close>

definition announcement_id_of :: "py_dict \<Rightarrow> string option" where
  "announcement_id_of d = map_option py_str (map_of d ''_id'')"

definition announcement_exists :: "database \<Rightarrow> string \<Rightarrow> bool" where
  "announcement_exists db announcement_id =
     list_ex (\<lambda>d. announcement_id_of d = Some announcement_id) (announcements_collection db)"

text \<open>
  The Identity Directory holds an identifier when a document of
  \<^verbatim>\<open>teachers_collection\<close> has it as its key; a caller is authenticated when it
  gives a non-empty identifier that the directory holds.
\<close>

definition in_directory :: "database \<Rightarrow> string \<Rightarrow> bool" where
  "in_directory db u = list_ex (\<lambda>t. map_of t ''_id'' = Some (PyStr u)) (teachers_collection db)"

definition authenticated :: "database \<Rightarrow> string option \<Rightarrow> bool" where
  "authenticated db username =
     (case username of None \<Rightarrow> False | Some u \<Rightarrow> u \<noteq> [] \<and> in_directory db u)"

text \<open>
  A database for the examples: one teacher; an announcement kept under a string key,
  and one as Create stores it, under an ObjectId.
\<close>

definition example_db :: database where
  "example_db =
     \<lparr>announcements_collection =
        [[(''_id'', PyStr ''welcome''), (''message'', PyStr ''Welcome back''),
          (''expiration'', PyDatetime 2000), (''start_date'', PyNone)],
         [(''_id'', PyObjectId (ObjectId ''65f0c0ffee0123456789abcd'')),
          (''message'', PyStr ''Science fair''), (''expiration'', PyDatetime 1000),
          (''start_date'', PyDatetime 500)]],
      teachers_collection =
        [[(''_id'', PyStr ''mrodriguez''), (''display_name'', PyStr ''Ms. Rodriguez'')]]\<rparr>"

text \<open>
  The fields an Update supplies, as the specification speaks of them: those of
  \<^verbatim>\<open>message\<close>, \<^verbatim>\<open>expiration\<close> and \<^verbatim>\<open>start_date\<close> that are not \<^verbatim>\<open>None\<close>.
\<close>

definition supplied :: "string option \<Rightarrow> int option \<Rightarrow> int option \<Rightarrow> py_dict" where
  "supplied message expiration start_date =
     (case message of None \<Rightarrow> [] | Some m \<Rightarrow> [(''message'', PyStr m)]) @
     (case expiration of None \<Rightarrow> [] | Some e \<Rightarrow> [(''expiration'', PyDatetime e)]) @
     (case start_date of None \<Rightarrow> [] | Some s \<Rightarrow> [(''start_date'', PyDatetime s)])"

text \<open>
  The example of the specification: the teacher of \<open>example_db\<close> creates the
  announcement "Exam Friday"; \<open>exam_db\<close> is the database after that call.
\<close>

definition exam_oid :: object_id where
  "exam_oid = ObjectId ''65f0c0ffee0123456789abce''"

definition exam_db :: database where
  "exam_db =
     snd (create_announcement example_db exam_oid ''Exam Friday'' 3000 None (Some ''mrodriguez''))"

section \<open>The authentication gate\<close>

lemma matches_id: "matches d (''_id'', EqStr u) \<longleftrightarrow> map_of d ''_id'' = Some (PyStr u)"
proof (cases "map_of d ''_id''")
  case None
  then show ?thesis by simp
next
  case (Some v)
  then show ?thesis by (cases v) auto
qed

lemma find_one_None_iff: "find_one c q = None \<longleftrightarrow> \<not> list_ex (\<lambda>d. matches d q) c"
  by (auto simp: find_one_def find_None_iff list_ex_iff)

lemma find_one_Some_matches: "find_one c q = Some d \<Longrightarrow> d \<in> set c \<and> matches d q"
  by (auto simp: find_one_def find_Some_iff)

lemma require_auth_None: "require_auth db None = Inl Unauthenticated"
  by (simp add: require_auth_def)

lemma require_auth_empty: "require_auth db (Some []) = Inl Unauthenticated"
  by (simp add: require_auth_def)

lemma require_auth_unknown:
  assumes "u \<noteq> []" and "\<not> in_directory db u"
  shows "require_auth db (Some u) = Inl InvalidCaller"
proof -
  have "find_one (teachers_collection db) (''_id'', EqStr u) = None"
    using assms(2) unfolding find_one_None_iff in_directory_def matches_id .
  with assms(1) show ?thesis by (simp add: require_auth_def)
qed

lemma require_auth_known:
  assumes "authenticated db username"
  shows "\<exists>teacher. require_auth db username = Inr teacher"
proof -
  from assms obtain u where u: "username = Some u" "u \<noteq> []" "in_directory db u"
    by (auto simp: authenticated_def split: option.splits)
  from u(3) have "find_one (teachers_collection db) (''_id'', EqStr u) \<noteq> None"
    unfolding find_one_None_iff in_directory_def matches_id by simp
  then obtain t where t: "find_one (teachers_collection db) (''_id'', EqStr u) = Some t"
    by blast
  from find_one_Some_matches [OF t] have "map_of t ''_id'' = Some (PyStr u)"
    by (simp only: matches_id)
  then have "t \<noteq> []" by auto
  with u t show ?thesis by (simp add: require_auth_def)
qed

lemma gate_refuses:
  assumes "require_auth db username = Inl e"
  shows "create_announcement db new_oid message expiration start_date username = (Inl e, db)"
    and "update_announcement db announcement_id msg exp sd username = (Inl e, db)"
    and "delete_announcement db announcement_id username = (Inl e, db)"
  using assms
  by (simp_all add: create_announcement_def update_announcement_def delete_announcement_def)

lemma example_directory:
  "in_directory example_db ''mrodriguez''"
  "\<not> in_directory example_db []"
  "\<not> in_directory example_db ''nobody''"
  by (simp_all add: in_directory_def example_db_def)

lemma example_teacher:
  "require_auth example_db (Some ''mrodriguez'') =
     Inr [(''_id'', PyStr ''mrodriguez''), (''display_name'', PyStr ''Ms. Rodriguez'')]"
  by (simp add: require_auth_def find_one_def example_db_def)

lemma example_wf: "wf_collection (announcements_collection example_db)"
  by (simp add: wf_collection_def has_key_def example_db_def)

lemma example_has_keys: "list_all has_key (announcements_collection example_db)"
  using example_wf by (simp add: wf_collection_def)

text \<open>
  C10. A caller identifier that is the empty string is refused like an absent one:
  \<^verbatim>\<open>require_auth\<close> and each of Create, Update and Delete fail with Unauthenticated,
  whatever the Identity Directory holds (the result is the same for every database, so
  the directory is not read), and the database is left as it was.
\<close>

theorem empty_caller_unauthenticated:
  "require_auth db (Some []) = Inl Unauthenticated \<and>
   create_announcement db new_oid message expiration start_date (Some [])
     = (Inl Unauthenticated, db) \<and>
   update_announcement db announcement_id msg exp sd (Some [])
     = (Inl Unauthenticated, db) \<and>
   delete_announcement db announcement_id (Some []) = (Inl Unauthenticated, db)"
  by (simp add: create_announcement_def update_announcement_def delete_announcement_def
      require_auth_empty)

text \<open>The same in a directory that holds the empty string as a key.\<close>

theorem empty_caller_unauthenticated_witness:
  "in_directory (example_db\<lparr>teachers_collection := [[(''_id'', PyStr [])]]\<rparr>) [] \<and>
   require_auth (example_db\<lparr>teachers_collection := [[(''_id'', PyStr [])]]\<rparr>) (Some [])
     = Inl Unauthenticated \<and>
   delete_announcement (example_db\<lparr>teachers_collection := [[(''_id'', PyStr [])]]\<rparr>)
     ''welcome'' (Some [])
     = (Inl Unauthenticated, example_db\<lparr>teachers_collection := [[(''_id'', PyStr [])]]\<rparr>)"
  using empty_caller_unauthenticated
    [of "example_db\<lparr>teachers_collection := [[(''_id'', PyStr [])]]\<rparr>" _ _ _ _ "''welcome''"]
  by (simp add: in_directory_def)

section \<open>List Active\<close>

lemma id_from_key_eq:
  "id_from_key d =
     (case map_of d ''_id'' of
        None \<Rightarrow> Inl (KeyError ''_id'')
      | Some k \<Rightarrow> Inr (setitem (AList.delete ''_id'' d) ''id'' (PyStr (py_str k))))"
  by (simp add: id_from_key_def pop_def split: option.splits)

lemma for_each_ann_has_key:
  "list_all has_key anns \<Longrightarrow>
     \<exists>rs. for_each_ann anns = Inr rs \<and> map Inr rs = map id_from_key anns"
proof (induction anns)
  case Nil
  show ?case by simp
next
  case (Cons ann anns)
  from Cons.prems obtain k where k: "map_of ann ''_id'' = Some k"
    by (auto simp: has_key_def)
  from Cons obtain rs where rs: "for_each_ann anns = Inr rs" "map Inr rs = map id_from_key anns"
    by auto
  from k rs show ?case by (simp add: id_from_key_eq)
qed

lemma find_docs_has_key: "list_all has_key c \<Longrightarrow> list_all has_key (find_docs c q)"
  by (simp add: find_docs_def list_all_iff)

lemma get_announcements_returns:
  assumes "list_all has_key (announcements_collection db)"
  shows "\<exists>rs. get_announcements db now = Inr rs \<and>
              map Inr rs = map id_from_key
                (find_docs (announcements_collection db) (''expiration'', GteDate now))"
  unfolding get_announcements_def
  using assms by (intro for_each_ann_has_key find_docs_has_key)

lemma id_from_key_field:
  assumes "id_from_key d = Inr r" and "k \<noteq> ''id''" and "k \<noteq> ''_id''"
  shows "map_of r k = map_of d k"
  using assms
  by (auto simp: id_from_key_eq setitem_def update_conv' split: option.splits)

lemma id_from_key_id:
  assumes "id_from_key d = Inr r"
  shows "\<exists>key. map_of d ''_id'' = Some key \<and> map_of r ''id'' = Some (PyStr (py_str key)) \<and>
               map_of r ''_id'' = None"
  using assms
  by (auto simp: id_from_key_eq setitem_def update_conv' delete_conv' split: option.splits)

lemma matches_expiration: "matches d (''expiration'', GteDate now) = is_active d now"
proof (cases "map_of d ''expiration''")
  case None
  then show ?thesis by (simp add: is_active_def)
next
  case (Some v)
  then show ?thesis by (cases v) (simp_all add: is_active_def)
qed

lemma find_docs_active:
  "find_docs c (''expiration'', GteDate now) = filter (\<lambda>d. is_active d now) c"
  by (simp add: find_docs_def matches_expiration del: matches.simps)

lemma matches_other_field:
  "field \<noteq> k \<Longrightarrow> matches (setitem d k v) (field, c) = matches d (field, c)"
  by (simp add: setitem_def update_conv')

lemma id_from_key_same_activity:
  assumes "id_from_key d = Inr r" and "id_from_key d' = Inr r"
  shows "is_active d now = is_active d' now"
proof -
  have "map_of d ''expiration'' = map_of r ''expiration''"
    using id_from_key_field [OF assms(1), of "''expiration''"] by simp
  also have "\<dots> = map_of d' ''expiration''"
    using id_from_key_field [OF assms(2), of "''expiration''"] by simp
  finally show ?thesis by (simp add: is_active_def)
qed

text \<open>
  C1. List Active returns exactly the announcements whose expiration is at or after
  \<open>now\<close>, the one instant read at the call: on a collection whose documents all
  carry their key, the result is the list of the active announcements of the store, in
  the store's order, each with its key moved to \<^verbatim>\<open>id\<close>; an announcement of the
  store is in the result if and only if it is active; and the filter selects the same
  documents whatever is stored under \<^verbatim>\<open>start_date\<close>.
\<close>

theorem list_active_by_expiration:
  assumes "list_all has_key (announcements_collection db)"
  shows "\<exists>rs. get_announcements db now = Inr rs \<and>
           map Inr rs = map id_from_key
             (filter (\<lambda>d. is_active d now) (announcements_collection db)) \<and>
           (\<forall>d \<in> set (announcements_collection db).
              id_from_key d \<in> Inr ` set rs \<longleftrightarrow> is_active d now) \<and>
           (\<forall>f. find_docs (map (\<lambda>d. setitem d ''start_date'' (f d)) (announcements_collection db))
                   (''expiration'', GteDate now)
                 = map (\<lambda>d. setitem d ''start_date'' (f d))
                     (find_docs (announcements_collection db) (''expiration'', GteDate now)))"
proof -
  let ?anns = "announcements_collection db"
  let ?act = "filter (\<lambda>d. is_active d now) ?anns"
  from get_announcements_returns [OF assms, of now]
  obtain rs where rs: "get_announcements db now = Inr rs" "map Inr rs = map id_from_key ?act"
    by (auto simp: find_docs_active)
  from rs(2) have image: "Inr ` set rs = id_from_key ` set ?act"
    by (metis image_set)
  have member: "id_from_key d \<in> Inr ` set rs \<longleftrightarrow> is_active d now" if d: "d \<in> set ?anns" for d
  proof
    assume in_result: "id_from_key d \<in> Inr ` set rs"
    then obtain r where r: "id_from_key d = Inr r"
      by auto
    from in_result obtain d' where d': "d' \<in> set ?act" "id_from_key d' = id_from_key d"
      unfolding image by auto
    from id_from_key_same_activity [OF r, of d' now] d' r show "is_active d now"
      by simp
  next
    assume "is_active d now"
    with d have "d \<in> set ?act" by simp
    then show "id_from_key d \<in> Inr ` set rs"
      unfolding image by blast
  qed
  have frame: "find_docs (map (\<lambda>d. setitem d ''start_date'' (f d)) ?anns)
                   (''expiration'', GteDate now)
                 = map (\<lambda>d. setitem d ''start_date'' (f d))
                     (find_docs ?anns (''expiration'', GteDate now))" for f
    by (simp add: find_docs_def filter_map o_def matches_other_field del: matches.simps)
  from rs member frame show ?thesis by blast
qed

theorem list_active_by_expiration_witness:
  "list_all has_key (announcements_collection example_db) \<and>
   get_announcements example_db 1500 =
     Inr [[(''message'', PyStr ''Welcome back''), (''expiration'', PyDatetime 2000),
           (''start_date'', PyNone), (''id'', PyStr ''welcome'')]] \<and>
   filter (\<lambda>d. is_active d 1500) (announcements_collection example_db) =
     [[(''_id'', PyStr ''welcome''), (''message'', PyStr ''Welcome back''),
       (''expiration'', PyDatetime 2000), (''start_date'', PyNone)]]"
proof -
  have act: "filter (\<lambda>d. is_active d 1500) (announcements_collection example_db) =
     [[(''_id'', PyStr ''welcome''), (''message'', PyStr ''Welcome back''),
       (''expiration'', PyDatetime 2000), (''start_date'', PyNone)]]"
    by (simp add: example_db_def is_active_def)
  from list_active_by_expiration [OF example_has_keys, of 1500]
  obtain rs where "get_announcements example_db 1500 = Inr rs"
    "map Inr rs = map id_from_key (filter (\<lambda>d. is_active d 1500)
       (announcements_collection example_db))"
    by blast
  with act have "get_announcements example_db 1500 =
     Inr [[(''message'', PyStr ''Welcome back''), (''expiration'', PyDatetime 2000),
           (''start_date'', PyNone), (''id'', PyStr ''welcome'')]]"
    by (auto simp: id_from_key_eq setitem_def)
  with act example_has_keys show ?thesis by simp
qed

section \<open>Who may call what\<close>

text \<open>
  C2, as amended. Create, Update and Delete called with no caller identifier fail with
  Unauthenticated; called with a non-empty identifier that the Identity Directory does
  not hold they fail with InvalidCaller; in both cases the database is returned as it
  was. List Active takes no caller identifier, and returns a list on a collection whose
  documents all carry their key.
\<close>

theorem mutations_pass_the_gate:
  "create_announcement db new_oid message expiration start_date None
     = (Inl Unauthenticated, db) \<and>
   update_announcement db announcement_id msg exp sd None = (Inl Unauthenticated, db) \<and>
   delete_announcement db announcement_id None = (Inl Unauthenticated, db) \<and>
   (u \<noteq> [] \<and> \<not> in_directory db u \<longrightarrow>
      create_announcement db new_oid message expiration start_date (Some u)
        = (Inl InvalidCaller, db) \<and>
      update_announcement db announcement_id msg exp sd (Some u) = (Inl InvalidCaller, db) \<and>
      delete_announcement db announcement_id (Some u) = (Inl InvalidCaller, db)) \<and>
   (list_all has_key (announcements_collection db) \<longrightarrow>
      (\<exists>rs. get_announcements db now = Inr rs))"
proof -
  note absent = gate_refuses [OF require_auth_None]
  have unknown: "u \<noteq> [] \<and> \<not> in_directory db u \<longrightarrow>
      create_announcement db new_oid message expiration start_date (Some u)
        = (Inl InvalidCaller, db) \<and>
      update_announcement db announcement_id msg exp sd (Some u) = (Inl InvalidCaller, db) \<and>
      delete_announcement db announcement_id (Some u) = (Inl InvalidCaller, db)"
    using gate_refuses [OF require_auth_unknown] by blast
  have open_read: "list_all has_key (announcements_collection db) \<longrightarrow>
      (\<exists>rs. get_announcements db now = Inr rs)"
    using get_announcements_returns by blast
  from absent unknown open_read show ?thesis by blast
qed

theorem mutations_pass_the_gate_witness:
  "''nobody'' \<noteq> [] \<and> \<not> in_directory example_db ''nobody'' \<and>
   create_announcement example_db (ObjectId ''65f0c0ffee0123456789abce'') ''Exam Friday'' 3000
     None (Some ''nobody'') = (Inl InvalidCaller, example_db) \<and>
   update_announcement example_db ''welcome'' (Some ''Exam moved to Monday'') None None
     (Some ''nobody'') = (Inl InvalidCaller, example_db) \<and>
   delete_announcement example_db ''welcome'' (Some ''nobody'') = (Inl InvalidCaller, example_db) \<and>
   delete_announcement example_db ''welcome'' None = (Inl Unauthenticated, example_db) \<and>
   list_all has_key (announcements_collection example_db) \<and>
   (\<exists>rs. get_announcements example_db 1500 = Inr rs)"
proof -
  have h: "''nobody'' \<noteq> [] \<and> \<not> in_directory example_db ''nobody''"
    using example_directory(3) by simp
  from mutations_pass_the_gate [of example_db "ObjectId ''65f0c0ffee0123456789abce''"
      "''Exam Friday''" 3000 None "''welcome''" "Some ''Exam moved to Monday''" None None
      "''nobody''" 1500] h example_has_keys
  show ?thesis by blast
qed

text \<open>
  The claim as first stated fails at the empty string: it is an identifier that the
  directory of the example does not hold, and the three operations answer
  Unauthenticated, not InvalidCaller.
\<close>

theorem empty_identifier_is_not_invalid_caller:
  "\<not> in_directory example_db [] \<and>
   fst (create_announcement example_db (ObjectId ''65f0c0ffee0123456789abce'') ''Exam Friday''
          3000 None (Some [])) \<noteq> Inl InvalidCaller \<and>
   fst (update_announcement example_db ''welcome'' (Some ''Exam moved to Monday'') None None
          (Some [])) \<noteq> Inl InvalidCaller \<and>
   fst (delete_announcement example_db ''welcome'' (Some [])) \<noteq> Inl InvalidCaller"
  by (simp add: example_directory(2) gate_refuses [OF require_auth_empty])


section \<open>Update\<close>

lemma update_announcement_authenticated:
  assumes "require_auth db username = Inr teacher"
  shows "update_announcement db announcement_id message expiration start_date username =
    (if supplied message expiration start_date = [] then (Inl NoFieldsToUpdate, db)
     else (case update_one (announcements_collection db) (''_id'', EqStr announcement_id)
                 (supplied message expiration start_date) of
             (c', matched_count) \<Rightarrow>
               if matched_count = 0 then (Inl NotFound, db\<lparr>announcements_collection := c'\<rparr>)
               else (case find_one c' (''_id'', EqStr announcement_id) of
                       None \<Rightarrow> (Inl AttributeError, db\<lparr>announcements_collection := c'\<rparr>)
                     | Some ann \<Rightarrow>
                         (case id_from_key ann of
                            Inl e \<Rightarrow> (Inl e, db\<lparr>announcements_collection := c'\<rparr>)
                          | Inr a \<Rightarrow> (Inr a, db\<lparr>announcements_collection := c'\<rparr>)))))"
  using assms
  by (cases message; cases expiration; cases start_date)
     (simp_all add: update_announcement_def supplied_def setitem_def Let_def split: prod.splits)

lemma supplied_nonempty:
  "supplied message expiration start_date \<noteq> [] \<longleftrightarrow>
     message \<noteq> None \<or> expiration \<noteq> None \<or> start_date \<noteq> None"
  by (cases message; cases expiration; cases start_date) (simp_all add: supplied_def)

lemma supplied_keys:
  "''_id'' \<notin> fst ` set (supplied message expiration start_date)"
  "distinct (map fst (supplied message expiration start_date))"
  by (cases message; cases expiration; cases start_date; simp add: supplied_def)+

lemma map_of_apply_set:
  "distinct (map fst fs) \<Longrightarrow>
     map_of (apply_set d fs) k =
       (case map_of fs k of None \<Rightarrow> map_of d k | Some v \<Rightarrow> Some v)"
proof (induction fs arbitrary: d)
  case Nil
  show ?case by simp
next
  case (Cons kv fs)
  obtain k' v' where kv: "kv = (k', v')" by (cases kv)
  from Cons.prems kv have fresh: "map_of fs k' = None" and rest: "distinct (map fst fs)"
    by (auto simp: map_of_eq_None_iff)
  from Cons.IH [OF rest, of "setitem d k' v'"] kv fresh show ?case
    by (auto simp: setitem_def update_conv' split: option.splits)
qed

lemma apply_set_keeps_match:
  assumes "''_id'' \<notin> fst ` set fs" and "distinct (map fst fs)"
  shows "matches (apply_set d fs) (''_id'', EqStr s) = matches d (''_id'', EqStr s)"
proof -
  from assms(1) have "map_of fs ''_id'' = None"
    by (simp add: map_of_eq_None_iff)
  with map_of_apply_set [OF assms(2), of d "''_id''"] show ?thesis
    by simp
qed

lemma update_one_not_found: "find_one c q = None \<Longrightarrow> update_one c q fs = (c, 0)"
  by (induction c) (auto simp: find_one_def split: if_splits)

lemma update_one_found:
  assumes "\<And>d. matches d q \<Longrightarrow> matches (apply_set d fs) q"
  shows "find_one c q = Some d0 \<Longrightarrow>
         \<exists>c'. update_one c q fs = (c', 1) \<and> find_one c' q = Some (apply_set d0 fs) \<and>
              length c' = length c"
proof (induction c)
  case Nil
  then show ?case by (simp add: find_one_def)
next
  case (Cons d c)
  show ?case
  proof (cases "matches d q")
    case True
    with Cons.prems have "d0 = d" by (simp add: find_one_def)
    with True assms [of d] show ?thesis by (simp add: find_one_def)
  next
    case False
    with Cons.prems have "find_one c q = Some d0" by (simp add: find_one_def)
    from Cons.IH [OF this] obtain c' where
      "update_one c q fs = (c', 1)" "find_one c' q = Some (apply_set d0 fs)"
      "length c' = length c"
      by blast
    with False show ?thesis by (simp add: find_one_def)
  qed
qed

text \<open>
  The path on which Update finds a document under the string it was given: the
  document is changed by the supplied fields and read back.
\<close>

lemma update_announcement_found:
  assumes auth: "require_auth db username = Inr teacher"
    and found: "find_one (announcements_collection db) (''_id'', EqStr announcement_id) = Some d0"
    and some: "supplied message expiration start_date \<noteq> []"
  shows "\<exists>r c'. update_announcement db announcement_id message expiration start_date username
                  = (Inr r, db\<lparr>announcements_collection := c'\<rparr>) \<and>
               find_one c' (''_id'', EqStr announcement_id)
                  = Some (apply_set d0 (supplied message expiration start_date)) \<and>
               id_from_key (apply_set d0 (supplied message expiration start_date)) = Inr r \<and>
               length c' = length (announcements_collection db)"
proof -
  let ?q = "(''_id'', EqStr announcement_id)"
  let ?f = "supplied message expiration start_date"
  have keep: "matches d ?q \<Longrightarrow> matches (apply_set d ?f) ?q" for d
    by (simp only: apply_set_keeps_match [OF supplied_keys])
  from update_one_found [of ?q ?f, OF keep found] obtain c' where
    c': "update_one (announcements_collection db) ?q ?f = (c', 1)"
        "find_one c' ?q = Some (apply_set d0 ?f)"
        "length c' = length (announcements_collection db)"
    by blast
  from find_one_Some_matches [OF c'(2)] have "map_of (apply_set d0 ?f) ''_id'' \<noteq> None"
    by (simp only: matches_id) simp
  then obtain r where r: "id_from_key (apply_set d0 ?f) = Inr r"
    by (auto simp: id_from_key_eq)
  from auth some c' r
  have "update_announcement db announcement_id message expiration start_date username
          = (Inr r, db\<lparr>announcements_collection := c'\<rparr>)"
    by (simp add: update_announcement_authenticated)
  with c' r show ?thesis by blast
qed

lemma not_exists_not_found:
  assumes "\<not> announcement_exists db announcement_id"
  shows "find_one (announcements_collection db) (''_id'', EqStr announcement_id) = None"
proof -
  have "announcement_id_of d = Some announcement_id"
    if "map_of d ''_id'' = Some (PyStr announcement_id)" for d
    using that by (simp add: announcement_id_of_def)
  with assms show ?thesis
    unfolding find_one_None_iff matches_id announcement_exists_def list_ex_iff by blast
qed

lemma example_update:
  "update_announcement example_db ''welcome'' (Some ''Welcome back, all'') None None
     (Some ''mrodriguez'') =
     (Inr [(''message'', PyStr ''Welcome back, all''), (''expiration'', PyDatetime 2000),
           (''start_date'', PyNone), (''id'', PyStr ''welcome'')],
      example_db\<lparr>announcements_collection :=
        [[(''_id'', PyStr ''welcome''), (''message'', PyStr ''Welcome back, all''),
          (''expiration'', PyDatetime 2000), (''start_date'', PyNone)],
         [(''_id'', PyObjectId (ObjectId ''65f0c0ffee0123456789abcd'')),
          (''message'', PyStr ''Science fair''), (''expiration'', PyDatetime 1000),
          (''start_date'', PyDatetime 500)]]\<rparr>)"
  by (subst update_announcement_authenticated [OF example_teacher])
     (simp add: supplied_def example_db_def find_one_def id_from_key_eq setitem_def)

lemma example_authenticated: "authenticated example_db (Some ''mrodriguez'')"
  by (simp add: authenticated_def example_directory(1))




text \<open>
  C6. For every authenticated caller and every id under which the store holds no
  announcement, an Update that supplies at least one of the optional fields fails with
  NotFound and returns the database as it was.
\<close>

theorem update_unknown_id_not_found:
  assumes "authenticated db username"
    and "\<not> announcement_exists db announcement_id"
    and "message \<noteq> None \<or> expiration \<noteq> None \<or> start_date \<noteq> None"
  shows "update_announcement db announcement_id message expiration start_date username
           = (Inl NotFound, db)"
proof -
  from require_auth_known [OF assms(1)] obtain teacher where
    auth: "require_auth db username = Inr teacher" ..
  from assms(3) have some: "supplied message expiration start_date \<noteq> []"
    by (simp only: supplied_nonempty)
  from update_one_not_found [OF not_exists_not_found [OF assms(2)]]
  have "update_one (announcements_collection db) (''_id'', EqStr announcement_id)
          (supplied message expiration start_date) = (announcements_collection db, 0)" .
  with some show ?thesis
    by (simp add: update_announcement_authenticated [OF auth])
qed

theorem update_unknown_id_not_found_witness:
  "authenticated example_db (Some ''mrodriguez'') \<and>
   \<not> announcement_exists example_db ''farewell'' \<and>
   update_announcement example_db ''farewell'' None (Some 4000) None (Some ''mrodriguez'')
     = (Inl NotFound, example_db)"
proof -
  have absent: "\<not> announcement_exists example_db ''farewell''"
    by (simp add: announcement_exists_def announcement_id_of_def example_db_def)
  from update_unknown_id_not_found [OF example_authenticated absent, of None "Some 4000" None]
    example_authenticated absent
  show ?thesis by simp
qed

text \<open>
  C8. When an Update succeeds, what it returns is the announcement that the store
  holds under the given id after the write: the document found there, which is the
  earlier document with the supplied fields set and every other field as it was, with
  its key moved to \<^verbatim>\<open>id\<close> by the statement that List Active uses; so \<^verbatim>\<open>id\<close> is
  the given string, \<^verbatim>\<open>_id\<close> is gone, and every other field of the result, supplied
  or not, is the stored one.
\<close>

theorem update_returns_stored_announcement:
  assumes "update_announcement db announcement_id message expiration start_date username
             = (Inr r, db')"
  shows "\<exists>d0 d.
           find_one (announcements_collection db) (''_id'', EqStr announcement_id) = Some d0 \<and>
           find_one (announcements_collection db') (''_id'', EqStr announcement_id) = Some d \<and>
           (\<forall>k. map_of d k =
                  (case map_of (supplied message expiration start_date) k of
                     None \<Rightarrow> map_of d0 k
                   | Some v \<Rightarrow> Some v)) \<and>
           id_from_key d = Inr r \<and>
           map_of r ''id'' = Some (PyStr announcement_id) \<and>
           map_of r ''_id'' = None \<and>
           (\<forall>k. k \<noteq> ''id'' \<and> k \<noteq> ''_id'' \<longrightarrow> map_of r k = map_of d k)"
proof -
  let ?q = "(''_id'', EqStr announcement_id)"
  let ?f = "supplied message expiration start_date"
  from assms obtain teacher where auth: "require_auth db username = Inr teacher"
    by (cases "require_auth db username") (auto simp: gate_refuses(2))
  note unfolded = assms [unfolded update_announcement_authenticated [OF auth]]
  from unfolded have some: "?f \<noteq> []"
    by (auto split: if_splits)
  have "find_one (announcements_collection db) ?q \<noteq> None"
  proof
    assume "find_one (announcements_collection db) ?q = None"
    from update_one_not_found [OF this, of ?f] unfolded some show False
      by simp
  qed
  then obtain d0 where d0: "find_one (announcements_collection db) ?q = Some d0"
    by blast
  from update_announcement_found [OF auth d0 some] assms obtain c' where
    db': "db' = db\<lparr>announcements_collection := c'\<rparr>"
    and d: "find_one c' ?q = Some (apply_set d0 ?f)"
    and r: "id_from_key (apply_set d0 ?f) = Inr r"
    by auto
  from find_one_Some_matches [OF d] have key: "map_of (apply_set d0 ?f) ''_id'' = Some (PyStr announcement_id)"
    by (simp only: matches_id)
  from id_from_key_id [OF r] key
  have ids: "map_of r ''id'' = Some (PyStr announcement_id)" "map_of r ''_id'' = None"
    by auto
  have rest: "\<forall>k. k \<noteq> ''id'' \<and> k \<noteq> ''_id'' \<longrightarrow> map_of r k = map_of (apply_set d0 ?f) k"
    using id_from_key_field [OF r] by blast
  have merged: "\<forall>k. map_of (apply_set d0 ?f) k =
                  (case map_of ?f k of None \<Rightarrow> map_of d0 k | Some v \<Rightarrow> Some v)"
    using map_of_apply_set [OF supplied_keys(2)] by blast
  from d0 d db' r ids rest merged show ?thesis
    by simp
qed

theorem update_returns_stored_announcement_witness:
  "update_announcement example_db ''welcome'' (Some ''Welcome back, all'') None None
     (Some ''mrodriguez'') =
     (Inr [(''message'', PyStr ''Welcome back, all''), (''expiration'', PyDatetime 2000),
           (''start_date'', PyNone), (''id'', PyStr ''welcome'')],
      example_db\<lparr>announcements_collection :=
        [[(''_id'', PyStr ''welcome''), (''message'', PyStr ''Welcome back, all''),
          (''expiration'', PyDatetime 2000), (''start_date'', PyNone)],
         [(''_id'', PyObjectId (ObjectId ''65f0c0ffee0123456789abcd'')),
          (''message'', PyStr ''Science fair''), (''expiration'', PyDatetime 1000),
          (''start_date'', PyDatetime 500)]]\<rparr>) \<and>
   find_one
     [[(''_id'', PyStr ''welcome''), (''message'', PyStr ''Welcome back, all''),
       (''expiration'', PyDatetime 2000), (''start_date'', PyNone)],
      [(''_id'', PyObjectId (ObjectId ''65f0c0ffee0123456789abcd'')),
       (''message'', PyStr ''Science fair''), (''expiration'', PyDatetime 1000),
       (''start_date'', PyDatetime 500)]]
     (''_id'', EqStr ''welcome'') \<noteq> None"
  using update_returns_stored_announcement [OF example_update] example_update
  by auto

section \<open>Create\<close>

text \<open>
  What Create does for an authenticated caller when the ObjectId that the driver
  generates is new to the collection: \<^verbatim>\<open>insert_one\<close> puts the ObjectId into
  \<^verbatim>\<open>ann\<close> under \<^verbatim>\<open>_id\<close> and stores the document; the handler adds \<^verbatim>\<open>id\<close>
  and returns \<^verbatim>\<open>ann\<close>.
\<close>

lemma create_announcement_authenticated:
  assumes "authenticated db username"
    and "\<not> key_in_use (announcements_collection db) (PyObjectId new_oid)"
  shows "create_announcement db new_oid message expiration start_date username =
     (Inr [(''message'', PyStr message), (''expiration'', PyDatetime expiration),
           (''start_date'', case start_date of None \<Rightarrow> PyNone | Some s \<Rightarrow> PyDatetime s),
           (''_id'', PyObjectId new_oid), (''id'', PyStr (oid_hex new_oid))],
      db\<lparr>announcements_collection := announcements_collection db @
        [[(''_id'', PyObjectId new_oid), (''message'', PyStr message),
          (''expiration'', PyDatetime expiration),
          (''start_date'', case start_date of None \<Rightarrow> PyNone | Some s \<Rightarrow> PyDatetime s)]]\<rparr>)"
proof -
  from require_auth_known [OF assms(1)] obtain teacher where
    auth: "require_auth db username = Inr teacher" ..
  from auth assms(2) show ?thesis
    by (simp add: create_announcement_def insert_one_def setitem_def)
qed

lemma example_fresh: "\<not> key_in_use (announcements_collection example_db) (PyObjectId exam_oid)"
  by (simp add: key_in_use_def example_db_def exam_oid_def)

lemma exam_db_eq:
  "exam_db = example_db\<lparr>announcements_collection := announcements_collection example_db @
        [[(''_id'', PyObjectId exam_oid), (''message'', PyStr ''Exam Friday''),
          (''expiration'', PyDatetime 3000), (''start_date'', PyNone)]]\<rparr>"
  by (simp add: exam_db_def create_announcement_authenticated [OF example_authenticated example_fresh])

lemma exam_db_teacher:
  "require_auth exam_db (Some ''mrodriguez'') =
     Inr [(''_id'', PyStr ''mrodriguez''), (''display_name'', PyStr ''Ms. Rodriguez'')]"
  using example_teacher by (simp add: exam_db_eq require_auth_def)

text \<open>
  C9. For every authenticated caller and every message, expiration and optional
  start date, none of them checked, Create succeeds when the ObjectId generated for
  the document is not yet a key of the collection: the collection is the earlier one
  followed by the one new document, the other collection is untouched, and the result
  holds the message, the expiration, the start date (\<^verbatim>\<open>None\<close> when absent) and, under
  \<^verbatim>\<open>id\<close>, the string of the key that the new document has in the store.
\<close>

theorem create_inserts_one_announcement:
  assumes "authenticated db username"
    and "\<not> key_in_use (announcements_collection db) (PyObjectId new_oid)"
  shows "\<exists>r db'. create_announcement db new_oid message expiration start_date username
                    = (Inr r, db') \<and>
           map_of r ''message'' = Some (PyStr message) \<and>
           map_of r ''expiration'' = Some (PyDatetime expiration) \<and>
           map_of r ''start_date'' =
             Some (case start_date of None \<Rightarrow> PyNone | Some s \<Rightarrow> PyDatetime s) \<and>
           map_of r ''id'' = Some (PyStr (py_str (PyObjectId new_oid))) \<and>
           announcements_collection db' = announcements_collection db @
             [[(''_id'', PyObjectId new_oid), (''message'', PyStr message),
               (''expiration'', PyDatetime expiration),
               (''start_date'', case start_date of None \<Rightarrow> PyNone | Some s \<Rightarrow> PyDatetime s)]] \<and>
           teachers_collection db' = teachers_collection db"
  by (simp add: create_announcement_authenticated [OF assms])

text \<open>An empty message, an expiration in the past and a start date after it are accepted.\<close>

theorem create_inserts_one_announcement_witness:
  "authenticated example_db (Some ''mrodriguez'') \<and>
   \<not> key_in_use (announcements_collection example_db) (PyObjectId exam_oid) \<and>
   (\<exists>r db'. create_announcement example_db exam_oid [] 0 (Some 5000) (Some ''mrodriguez'')
               = (Inr r, db') \<and>
             map_of r ''message'' = Some (PyStr []) \<and>
             map_of r ''expiration'' = Some (PyDatetime 0) \<and>
             map_of r ''start_date'' = Some (PyDatetime 5000) \<and>
             map_of r ''id'' = Some (PyStr ''65f0c0ffee0123456789abce'') \<and>
             length (announcements_collection db') = 3)"
proof -
  from create_inserts_one_announcement [OF example_authenticated example_fresh, of "[]" 0 "Some 5000"]
  obtain r db' where
    "create_announcement example_db exam_oid [] 0 (Some 5000) (Some ''mrodriguez'') = (Inr r, db')"
    "map_of r ''message'' = Some (PyStr [])"
    "map_of r ''expiration'' = Some (PyDatetime 0)"
    "map_of r ''start_date'' = Some (PyDatetime 5000)"
    "map_of r ''id'' = Some (PyStr (py_str (PyObjectId exam_oid)))"
    "announcements_collection db' = announcements_collection example_db @
             [[(''_id'', PyObjectId exam_oid), (''message'', PyStr []),
               (''expiration'', PyDatetime 0), (''start_date'', PyDatetime 5000)]]"
    by auto
  moreover have "py_str (PyObjectId exam_oid) = ''65f0c0ffee0123456789abce''"
    by (simp add: exam_oid_def)
  moreover have "length (announcements_collection example_db) = 2"
    by (simp add: example_db_def)
  ultimately show ?thesis
    using example_authenticated example_fresh by auto
qed

section \<open>What the results expose\<close>

text \<open>
  List Active returns every announcement with its identifier as a string under
  \<^verbatim>\<open>id\<close> and without \<^verbatim>\<open>_id\<close>; so does Update, as shown for C8.
\<close>

lemma for_each_ann_results:
  "for_each_ann anns = Inr rs \<Longrightarrow> list_all2 (\<lambda>ann r. id_from_key ann = Inr r) anns rs"
proof (induction anns arbitrary: rs)
  case Nil
  then show ?case by simp
next
  case (Cons ann anns)
  then show ?case
    by (auto split: sum.splits)
qed

lemma get_announcements_hides_key:
  assumes "get_announcements db now = Inr rs" and "r \<in> set rs"
  shows "map_of r ''_id'' = None \<and> (\<exists>s. map_of r ''id'' = Some (PyStr s))"
proof -
  from for_each_ann_results [OF assms(1) [unfolded get_announcements_def]] assms(2)
  obtain ann where "id_from_key ann = Inr r"
    by (auto simp: list_all2_conv_all_nth in_set_conv_nth)
  from id_from_key_id [OF this] show ?thesis by auto
qed

text \<open>
  C5. Every announcement that an operation returns is to show its identifier as a
  string under \<^verbatim>\<open>id\<close> and never the storage key \<^verbatim>\<open>_id\<close>. Create does not keep
  to it: \<^verbatim>\<open>insert_one\<close> has put the key into \<^verbatim>\<open>ann\<close> under \<^verbatim>\<open>_id\<close>, and line 50
  adds \<^verbatim>\<open>id\<close> without the \<^verbatim>\<open>pop\<close> of lines 33 and 77. The dictionary that Create
  returns for "Exam Friday" holds the ObjectId under \<^verbatim>\<open>_id\<close>, beside \<^verbatim>\<open>id\<close>.
\<close>

theorem create_result_exposes_storage_key:
  "fst (create_announcement example_db exam_oid ''Exam Friday'' 3000 None (Some ''mrodriguez''))
     = Inr [(''message'', PyStr ''Exam Friday''), (''expiration'', PyDatetime 3000),
            (''start_date'', PyNone), (''_id'', PyObjectId exam_oid),
            (''id'', PyStr ''65f0c0ffee0123456789abce'')]"
  by (simp add: create_announcement_authenticated [OF example_authenticated example_fresh])
     (simp add: exam_oid_def)

section \<open>Addressing an announcement by its id\<close>

text \<open>
  Update and Delete look the announcement up with \<^verbatim>\<open>{"_id": announcement_id}\<close>, the
  string they were given. A document that Create has stored has an ObjectId for its
  key, which no string equals: the lookup passes it over.
\<close>

lemma object_id_key_never_matches:
  "map_of d ''_id'' = Some (PyObjectId oid) \<Longrightarrow> \<not> matches d (''_id'', EqStr s)"
  by simp

lemma delete_one_not_found: "find_one c q = None \<Longrightarrow> delete_one c q = (c, 0)"
  by (induction c) (auto simp: find_one_def split: if_splits)

lemma delete_one_found: "find_one c q = Some d \<Longrightarrow> delete_one c q = (remove1 d c, 1)"
proof (induction c)
  case Nil
  then show ?case by (simp add: find_one_def)
next
  case (Cons d' c)
  show ?case
  proof (cases "matches d' q")
    case True
    with Cons.prems show ?thesis by (simp add: find_one_def)
  next
    case False
    with Cons.prems have found: "find_one c q = Some d" by (simp add: find_one_def)
    from find_one_Some_matches [OF found] False have "d \<noteq> d'" by auto
    with Cons.IH [OF found] False show ?thesis by simp
  qed
qed

lemma delete_announcement_authenticated:
  assumes "require_auth db username = Inr teacher"
  shows "delete_announcement db announcement_id username =
    (case find_one (announcements_collection db) (''_id'', EqStr announcement_id) of
       None \<Rightarrow> (Inl NotFound, db)
     | Some d \<Rightarrow> (Inr [(''success'', PyBool True)],
                  db\<lparr>announcements_collection := remove1 d (announcements_collection db)\<rparr>))"
proof (cases "find_one (announcements_collection db) (''_id'', EqStr announcement_id)")
  case None
  from delete_one_not_found [OF this] assms None show ?thesis
    by (simp add: delete_announcement_def)
next
  case (Some d)
  from delete_one_found [OF this] assms Some show ?thesis
    by (simp add: delete_announcement_def)
qed

text \<open>
  Where the keys of the collection are distinct, a Delete that finds a document under
  the given string leaves none there.
\<close>

lemma delete_announcement_removes:
  assumes "require_auth db username = Inr teacher"
    and "wf_collection (announcements_collection db)"
    and "find_one (announcements_collection db) (''_id'', EqStr announcement_id) = Some d"
  shows "\<exists>db'. delete_announcement db announcement_id username
                 = (Inr [(''success'', PyBool True)], db') \<and>
               announcements_collection db' = remove1 d (announcements_collection db) \<and>
               find_one (announcements_collection db') (''_id'', EqStr announcement_id) = None"
proof -
  let ?c = "announcements_collection db"
  from find_one_Some_matches [OF assms(3)]
  have d: "d \<in> set ?c" "map_of d ''_id'' = Some (PyStr announcement_id)"
    by (simp_all only: matches_id)
  from assms(2) have inj: "inj_on (\<lambda>d. map_of d ''_id'') (set ?c)" and dist: "distinct ?c"
    by (simp_all add: wf_collection_def distinct_map)
  have "\<not> matches d' (''_id'', EqStr announcement_id)" if "d' \<in> set (remove1 d ?c)" for d'
  proof
    assume "matches d' (''_id'', EqStr announcement_id)"
    then have "map_of d' ''_id'' = map_of d ''_id''"
      using d(2) by (simp only: matches_id)
    moreover from that dist have "d' \<in> set ?c" "d' \<noteq> d"
      by auto
    ultimately show False
      using inj d(1) by (auto dest: inj_onD)
  qed
  then have "find_one (remove1 d ?c) (''_id'', EqStr announcement_id) = None"
    unfolding find_one_None_iff list_ex_iff by blast
  with assms(1,3) show ?thesis
    by (simp add: delete_announcement_authenticated)
qed

text \<open>
  After any Create, Update and Delete called by the same teacher with the id that
  Create returned answer NotFound, unless another document happens to have that string
  for its key.
\<close>

lemma created_announcement_not_found:
  assumes "authenticated db username"
    and "\<not> key_in_use (announcements_collection db) (PyObjectId new_oid)"
    and "\<not> key_in_use (announcements_collection db) (PyStr (oid_hex new_oid))"
    and "create_announcement db new_oid message expiration start_date username = (Inr r, db')"
  shows "map_of r ''id'' = Some (PyStr (oid_hex new_oid))"
    and "announcement_exists db' (oid_hex new_oid)"
    and "delete_announcement db' (oid_hex new_oid) username = (Inl NotFound, db')"
    and "update_announcement db' (oid_hex new_oid) (Some m) None None username
           = (Inl NotFound, db')"
proof -
  note created = assms(4) [unfolded create_announcement_authenticated [OF assms(1,2)]]
  from created show "map_of r ''id'' = Some (PyStr (oid_hex new_oid))"
    by auto
  from created show "announcement_exists db' (oid_hex new_oid)"
    by (auto simp: announcement_exists_def announcement_id_of_def)
  from assms(1) created have "authenticated db' username"
    by (auto simp: authenticated_def in_directory_def split: option.splits)
  from require_auth_known [OF this] obtain teacher where
    auth: "require_auth db' username = Inr teacher" ..
  from assms(3) created
  have none: "find_one (announcements_collection db') (''_id'', EqStr (oid_hex new_oid)) = None"
    unfolding find_one_None_iff matches_id by (auto simp: key_in_use_def)
  from none show "delete_announcement db' (oid_hex new_oid) username = (Inl NotFound, db')"
    by (simp add: delete_announcement_authenticated [OF auth])
  from update_one_not_found [OF none]
  show "update_announcement db' (oid_hex new_oid) (Some m) None None username
          = (Inl NotFound, db')"
    by (simp add: update_announcement_authenticated [OF auth] supplied_def)
qed

text \<open>
  Whatever an Update answers, no field that it was not given changes in any document
  of the collection.
\<close>

lemma apply_set_other_field:
  "map_of fs k = None \<Longrightarrow> map_of (apply_set d fs) k = map_of d k"
proof (induction fs arbitrary: d)
  case Nil
  show ?case by simp
next
  case (Cons kv fs)
  obtain k' v' where kv: "kv = (k', v')" by (cases kv)
  with Cons.prems have "k' \<noteq> k" "map_of fs k = None"
    by (auto split: if_splits)
  with Cons.IH [of "setitem d k' v'"] kv show ?case
    by (simp add: setitem_def update_conv')
qed

lemma update_one_frame:
  assumes "map_of fs k = None"
  shows "list_all2 (\<lambda>d d'. map_of d' k = map_of d k) c (fst (update_one c q fs))"
proof (induction c)
  case Nil
  show ?case by simp
next
  case (Cons d c)
  then show ?case
    by (auto simp: apply_set_other_field [OF assms] list_all2_same split: prod.splits)
qed

lemma update_announcement_frame:
  assumes "map_of (supplied message expiration start_date) k = None"
  shows "list_all2 (\<lambda>d d'. map_of d' k = map_of d k)
           (announcements_collection db)
           (announcements_collection
              (snd (update_announcement db announcement_id message expiration start_date
                      username)))"
proof (cases "require_auth db username")
  case (Inl e)
  then show ?thesis
    by (simp add: gate_refuses(2) list_all2_same)
next
  case (Inr teacher)
  let ?c' = "fst (update_one (announcements_collection db) (''_id'', EqStr announcement_id)
                    (supplied message expiration start_date))"
  have "announcements_collection
          (snd (update_announcement db announcement_id message expiration start_date username))
        = ?c' \<or>
        announcements_collection
          (snd (update_announcement db announcement_id message expiration start_date username))
        = announcements_collection db"
    by (auto simp: update_announcement_authenticated [OF Inr]
        split: prod.splits option.splits sum.splits)
  with update_one_frame [OF assms] show ?thesis
    by (auto simp: list_all2_same)
qed

lemma exam_db_holds_exam: "announcement_exists exam_db ''65f0c0ffee0123456789abce''"
  by (simp add: exam_db_eq announcement_exists_def announcement_id_of_def exam_oid_def)

lemma exam_db_lookup:
  "find_one (announcements_collection exam_db) (''_id'', EqStr ''65f0c0ffee0123456789abce'')
     = None"
  by (simp add: exam_db_eq find_one_def example_db_def)

text \<open>
  C3. An Update of an existing announcement is to overwrite exactly the supplied
  fields and leave the others. In the example of the specification "Exam Friday" is
  created, then updated under the id that Create returned, with a new message only. The
  announcement exists, and List Active shows it under that id; Update answers NotFound,
  and the message is not overwritten.
\<close>

theorem update_of_created_announcement_not_found:
  "announcement_exists exam_db ''65f0c0ffee0123456789abce'' \<and>
   update_announcement exam_db ''65f0c0ffee0123456789abce'' (Some ''Exam moved to Monday'')
     None None (Some ''mrodriguez'') = (Inl NotFound, exam_db) \<and>
   get_announcements exam_db 2500 =
     Inr [[(''message'', PyStr ''Exam Friday''), (''expiration'', PyDatetime 3000),
           (''start_date'', PyNone), (''id'', PyStr ''65f0c0ffee0123456789abce'')]]"
proof -
  have "update_announcement exam_db ''65f0c0ffee0123456789abce'' (Some ''Exam moved to Monday'')
     None None (Some ''mrodriguez'') = (Inl NotFound, exam_db)"
    using update_one_not_found [OF exam_db_lookup]
    by (simp add: update_announcement_authenticated [OF exam_db_teacher] supplied_def)
  moreover have "get_announcements exam_db 2500 =
     Inr [[(''message'', PyStr ''Exam Friday''), (''expiration'', PyDatetime 3000),
           (''start_date'', PyNone), (''id'', PyStr ''65f0c0ffee0123456789abce'')]]"
    by (simp add: get_announcements_def find_docs_def exam_db_eq example_db_def
        id_from_key_eq setitem_def exam_oid_def)
  ultimately show ?thesis
    using exam_db_holds_exam by simp
qed

text \<open>
  C7. Delete is to fail with NotFound only when no announcement with the given id
  exists, and to remove the announcement otherwise. Called with the id that Create
  returned for "Exam Friday", it answers NotFound although the announcement with that
  id exists, and removes nothing.
\<close>

theorem delete_of_created_announcement_not_found:
  "announcement_exists exam_db ''65f0c0ffee0123456789abce'' \<and>
   delete_announcement exam_db ''65f0c0ffee0123456789abce'' (Some ''mrodriguez'')
     = (Inl NotFound, exam_db)"
  using exam_db_holds_exam exam_db_lookup
  by (simp add: delete_announcement_authenticated [OF exam_db_teacher])

end
